theory Spec2Isabelle
  imports Main
begin

section \<open>The WGSL front end: orchestration of the compiler passes\<close>

text \<open>
  This theory embeds \<^verbatim>\<open>Source/WebGPU/WGSL/WGSL.cpp\<close>: the two pipelines
  \<^verbatim>\<open>staticCheck\<close> and \<^verbatim>\<open>prepare\<close>, and the constant lookup \<^verbatim>\<open>evaluate\<close>.
  The passes themselves (\<^verbatim>\<open>parse\<close>, \<^verbatim>\<open>typeCheck\<close>, \<^verbatim>\<open>buildCallGraph\<close>, ...) live in
  other files; here they are parameters, each a function of the objects the C++
  hands to it by reference, returning its result together with the updated objects.
\<close>

subsection \<open>Diagnostics: phase times and AST dumps\<close>

text \<open>
  \<^verbatim>\<open>PhaseTimes\<close> is the list that every \<^verbatim>\<open>PhaseTimer\<close> appends to when it goes out
  of scope; \<^verbatim>\<open>dumped\<close> collects what \<^verbatim>\<open>dumpASTBetweenEachPassIfNeeded\<close> and
  \<^verbatim>\<open>dumpASTAtEndIfNeeded\<close> print (the message and the module printed; the dump at
  the end takes no message and is labelled "AST at end" here). Neither is read back
  by the orchestration.
\<close>

record ('m, 'd) diagnostics =
  phaseTimes :: "(string \<times> 'd) list"
  dumped :: "(string \<times> 'm) list"

text \<open>
  What the orchestration reads from outside the compilation: the two debugging
  switches and the clock. \<^verbatim>\<open>elapsed n\<close> is the duration the clock gives to the
  \<open>n\<close>-th timer that finishes.
\<close>

record 'd debug_env =
  shouldDumpASTBetweenEachPass :: bool
  shouldDumpASTAtEnd :: bool
  elapsed :: "nat \<Rightarrow> 'd"

definition dumpASTBetweenEachPassIfNeeded ::
  "'d debug_env \<Rightarrow> 'm \<Rightarrow> string \<Rightarrow> ('m, 'd) diagnostics \<Rightarrow> ('m, 'd) diagnostics" where
  "dumpASTBetweenEachPassIfNeeded env shaderModule message d =
     (if shouldDumpASTBetweenEachPass env
      then d\<lparr>dumped := dumped d @ [(message, shaderModule)]\<rparr> else d)"

definition dumpASTAtEndIfNeeded ::
  "'d debug_env \<Rightarrow> 'm \<Rightarrow> ('m, 'd) diagnostics \<Rightarrow> ('m, 'd) diagnostics" where
  "dumpASTAtEndIfNeeded env shaderModule d =
     (if shouldDumpASTAtEnd env
      then d\<lparr>dumped := dumped d @ [(''AST at end'', shaderModule)]\<rparr> else d)"

text \<open>
  Modelled from the spec: \<^verbatim>\<open>PhaseTimer\<close> (its class is declared in PhaseTimer.h,
  outside this file). "Each step is individually timed; cumulative phase timings are
  exposed for diagnostics but never affect behavior": when the timer's scope ends, the
  phase's name and its duration are appended to the phase times.
\<close>

definition PhaseTimer ::
  "'d debug_env \<Rightarrow> string \<Rightarrow> ('m, 'd) diagnostics \<Rightarrow> ('m, 'd) diagnostics" where
  "PhaseTimer env phaseName d =
     d\<lparr>phaseTimes := phaseTimes d @ [(phaseName, elapsed env (length (phaseTimes d)))]\<rparr>"

definition phases :: "('m, 'd) diagnostics \<Rightarrow> string list" where
  "phases d = map fst (phaseTimes d)"

subsection \<open>The macros that run a pass\<close>

text \<open>
  \<^verbatim>\<open>CHECK_PASS(pass, ...)\<close>: dump the AST, run the pass under a timer, and hand back
  its optional failure; the caller returns at once when there is one.
  \<open>h\<close> stands for the objects the pass receives by reference, \<open>modOf\<close> picks the
  shader module among them (the macro always dumps the variable \<^verbatim>\<open>shaderModule\<close>).
\<close>

definition CHECK_PASS ::
  "'d debug_env \<Rightarrow> string \<Rightarrow> ('h \<Rightarrow> 'm) \<Rightarrow> ('h \<Rightarrow> 'f option \<times> 'h) \<Rightarrow>
   ('m, 'd) diagnostics \<times> 'h \<Rightarrow> 'f option \<times> ('m, 'd) diagnostics \<times> 'h" where
  "CHECK_PASS env name modOf pass = (\<lambda>(d, h).
     (let d1 = dumpASTBetweenEachPassIfNeeded env (modOf h) (''AST before '' @ name) d;
          (maybeFailure, h') = pass h;
          d2 = PhaseTimer env name d1
      in (maybeFailure, d2, h')))"

text \<open>\<^verbatim>\<open>RUN_PASS(pass, ...)\<close>: the same for a pass that returns nothing.\<close>

definition RUN_PASS ::
  "'d debug_env \<Rightarrow> string \<Rightarrow> ('h \<Rightarrow> 'm) \<Rightarrow> ('h \<Rightarrow> 'h) \<Rightarrow>
   ('m, 'd) diagnostics \<times> 'h \<Rightarrow> ('m, 'd) diagnostics \<times> 'h" where
  "RUN_PASS env name modOf pass = (\<lambda>(d, h).
     (let d1 = dumpASTBetweenEachPassIfNeeded env (modOf h) (''AST before '' @ name) d;
          h' = pass h;
          d2 = PhaseTimer env name d1
      in (d2, h')))"

text \<open>\<^verbatim>\<open>RUN_PASS_WITH_RESULT(name, pass, ...)\<close>: a pass whose result is kept.\<close>

definition RUN_PASS_WITH_RESULT ::
  "'d debug_env \<Rightarrow> string \<Rightarrow> ('h \<Rightarrow> 'm) \<Rightarrow> ('h \<Rightarrow> 'r \<times> 'h) \<Rightarrow>
   ('m, 'd) diagnostics \<times> 'h \<Rightarrow> 'r \<times> ('m, 'd) diagnostics \<times> 'h" where
  "RUN_PASS_WITH_RESULT env name modOf pass = (\<lambda>(d, h).
     (let d1 = dumpASTBetweenEachPassIfNeeded env (modOf h) (''AST before '' @ name) d;
          (r, h') = pass h;
          d2 = PhaseTimer env name d1
      in (r, d2, h')))"

subsection \<open>staticCheck\<close>

record ('w, 'm) SuccessfulCheck =
  warnings :: "'w list"
  ast :: 'm

record 'e FailedCheck =
  errors :: "'e list"

text \<open>
  The four checking passes and the constructor of \<^verbatim>\<open>ShaderModule\<close>. Each pass
  takes the module by reference and returns \<^verbatim>\<open>std::optional<FailedCheck>\<close>.
\<close>

record ('cfg, 'm, 'e) check_passes =
  makeShaderModule :: "string \<Rightarrow> 'cfg \<Rightarrow> 'm"
  parse :: "'m \<Rightarrow> 'e FailedCheck option \<times> 'm"
  reorderGlobals :: "'m \<Rightarrow> 'e FailedCheck option \<times> 'm"
  typeCheck :: "'m \<Rightarrow> 'e FailedCheck option \<times> 'm"
  validateAttributes :: "'m \<Rightarrow> 'e FailedCheck option \<times> 'm"

text \<open>
  \<^verbatim>\<open>staticCheck\<close> with its local \<^verbatim>\<open>phaseTimes\<close> kept in the result, so that one can
  say which passes ran. \<open>Inl\<close> is the \<^verbatim>\<open>FailedCheck\<close> alternative of the variant.
  The source map has no name in the C++ parameter list and is not used.
\<close>

definition staticCheck_run ::
  "('cfg, 'm, 'e) check_passes \<Rightarrow> 'd debug_env \<Rightarrow> string \<Rightarrow> 'sm option \<Rightarrow> 'cfg \<Rightarrow>
   ('e FailedCheck + ('w, 'm) SuccessfulCheck) \<times> ('m, 'd) diagnostics" where
  "staticCheck_run P env wgsl sourceMap configuration =
     (let phaseTimes0 = \<lparr>phaseTimes = [], dumped = []\<rparr>;
          shaderModule = makeShaderModule P wgsl configuration
      in (case CHECK_PASS env ''parse'' id (parse P) (phaseTimes0, shaderModule) of
           (Some failure, d, _) \<Rightarrow> (Inl failure, d)
         | (None, d, shaderModule) \<Rightarrow>
      (case CHECK_PASS env ''reorderGlobals'' id (reorderGlobals P) (d, shaderModule) of
           (Some failure, d, _) \<Rightarrow> (Inl failure, d)
         | (None, d, shaderModule) \<Rightarrow>
      (case CHECK_PASS env ''typeCheck'' id (typeCheck P) (d, shaderModule) of
           (Some failure, d, _) \<Rightarrow> (Inl failure, d)
         | (None, d, shaderModule) \<Rightarrow>
      (case CHECK_PASS env ''validateAttributes'' id (validateAttributes P) (d, shaderModule) of
           (Some failure, d, _) \<Rightarrow> (Inl failure, d)
         | (None, d, shaderModule) \<Rightarrow>
           (Inr \<lparr>warnings = [], ast = shaderModule\<rparr>, d))))))"

definition staticCheck ::
  "('cfg, 'm, 'e) check_passes \<Rightarrow> 'd debug_env \<Rightarrow> string \<Rightarrow> 'sm option \<Rightarrow> 'cfg \<Rightarrow>
   'e FailedCheck + ('w, 'm) SuccessfulCheck" where
  "staticCheck P env wgsl sourceMap configuration =
     fst (staticCheck_run P env wgsl sourceMap configuration)"

subsection \<open>prepare\<close>

record ('cg, 'epi, 'sc) PrepareResult =
  callGraph :: 'cg
  entryPoints :: "string \<rightharpoonup> 'epi"
  compilationScope :: 'sc

text \<open>
  The six passes of \<^verbatim>\<open>prepareImpl\<close>, each with the objects it is called with.
  A \<^verbatim>\<open>CallGraph\<close> refers to the module it was built from, so a pass that is given
  the call graph may rewrite the module as well. Only \<^verbatim>\<open>buildCallGraph\<close> (a
  \<^verbatim>\<open>CallGraph\<close>) and \<^verbatim>\<open>rewriteGlobalVariables\<close> (an optional \<^verbatim>\<open>Error\<close>) return
  something the orchestration looks at. The pipeline layouts are passed by const
  reference.
\<close>

record ('m, 'l, 'cg, 'epi, 'e) prepare_passes =
  buildCallGraph :: "(string \<rightharpoonup> 'l option) \<Rightarrow> 'm \<times> (string \<rightharpoonup> 'epi) \<Rightarrow>
                     'cg \<times> 'm \<times> (string \<rightharpoonup> 'epi)"
  mangleNames :: "'cg \<times> (string \<rightharpoonup> 'epi) \<times> 'm \<Rightarrow> 'cg \<times> (string \<rightharpoonup> 'epi) \<times> 'm"
  rewritePointers :: "'cg \<times> 'm \<Rightarrow> 'cg \<times> 'm"
  insertBoundsChecks :: "'m \<Rightarrow> 'm"
  rewriteEntryPoints :: "'cg \<times> 'm \<Rightarrow> 'cg \<times> 'm"
  rewriteGlobalVariables :: "(string \<rightharpoonup> 'l option) \<Rightarrow> 'cg \<times> 'm \<Rightarrow> 'e option \<times> 'cg \<times> 'm"

text \<open>
  Modelled from the spec: \<^verbatim>\<open>CompilationScope\<close> (its class is declared in a
  header, outside this file). "The CompilationScope is a scoped resource:
  state allocated for name-mangling/rewriting context must be torn down when the scope
  exits": constructing a scope on a module gives a handle that owns the module's
  scoped state (\<open>openScope\<close>); destroying a handle that still owns its state tears
  that state down (\<open>closeScope\<close>); moving a handle hands the ownership over and leaves
  the variable moved from, whose destruction does nothing. \<open>liveScopes\<close> counts the
  scopes whose state has been set up and not yet torn down.
\<close>

record ('m, 'sc) scope_ops =
  openScope :: "'m \<Rightarrow> 'sc \<times> 'm"
  closeScope :: "'sc \<Rightarrow> 'm \<Rightarrow> 'm"

datatype 'sc scope_var = Owns 'sc | MovedFrom

definition CompilationScope_ctor ::
  "('m, 'sc) scope_ops \<Rightarrow> 'm \<times> nat \<Rightarrow> 'sc scope_var \<times> 'm \<times> nat" where
  "CompilationScope_ctor S = (\<lambda>(shaderModule, liveScopes).
     (let (sc, shaderModule') = openScope S shaderModule
      in (Owns sc, shaderModule', Suc liveScopes)))"

definition CompilationScope_dtor ::
  "('m, 'sc) scope_ops \<Rightarrow> 'sc scope_var \<Rightarrow> 'm \<times> nat \<Rightarrow> 'm \<times> nat" where
  "CompilationScope_dtor S v = (\<lambda>(shaderModule, liveScopes).
     (case v of
        Owns sc \<Rightarrow> (closeScope S sc shaderModule, liveScopes - 1)
      | MovedFrom \<Rightarrow> (shaderModule, liveScopes)))"

text \<open>
  A \<^verbatim>\<open>PrepareResult\<close> that goes out of scope destroys the scope it holds.
\<close>

definition PrepareResult_dtor ::
  "('m, 'sc) scope_ops \<Rightarrow> ('cg, 'epi, 'sc scope_var) PrepareResult \<Rightarrow> 'm \<times> nat \<Rightarrow> 'm \<times> nat" where
  "PrepareResult_dtor S result = CompilationScope_dtor S (compilationScope result)"

text \<open>
  What a call of \<^verbatim>\<open>prepare\<close> leaves behind besides its return value: the phase times
  it logs, the module it rewrote in place, and the number of live scopes.
\<close>

record ('m, 'd) prepare_effects =
  logged :: "('m, 'd) diagnostics"
  moduleAfter :: 'm
  liveScopesAfter :: nat

text \<open>
  The lambda in \<^verbatim>\<open>prepareImpl\<close>. It captures \<^verbatim>\<open>shaderModule\<close>, \<^verbatim>\<open>pipelineLayouts\<close>,
  \<^verbatim>\<open>phaseTimes\<close> and \<^verbatim>\<open>compilationScope\<close> by reference; the model takes the phase
  times, the module and the scope variable as arguments and returns them as the
  lambda leaves them. The timer "prepare total" lives until the lambda returns, on
  either path. Only the successful return moves the scope out of its variable.
  \<open>Inl\<close> is the \<^verbatim>\<open>Error\<close> alternative of the variant.
\<close>

definition prepareImpl_lambda ::
  "('m, 'l, 'cg, 'epi, 'e) prepare_passes \<Rightarrow> 'd debug_env \<Rightarrow> (string \<rightharpoonup> 'l option) \<Rightarrow>
   ('m, 'd) diagnostics \<times> 'm \<times> 'sc scope_var \<Rightarrow>
   ('e + ('cg, 'epi, 'sc scope_var) PrepareResult) \<times> ('m, 'd) diagnostics \<times> 'm \<times> 'sc scope_var" where
  "prepareImpl_lambda Q env pipelineLayouts = (\<lambda>(d, shaderModule, compilationScope).
     (let entryPoints = Map.empty;
          (callGraph, d, shaderModule, entryPoints) =
             RUN_PASS_WITH_RESULT env ''buildCallGraph'' fst
               (buildCallGraph Q pipelineLayouts) (d, shaderModule, entryPoints);
          (d, callGraph, entryPoints, shaderModule) =
             RUN_PASS env ''mangleNames'' (\<lambda>(cg, ep, m). m)
               (mangleNames Q) (d, callGraph, entryPoints, shaderModule);
          (d, callGraph, shaderModule) =
             RUN_PASS env ''rewritePointers'' snd
               (rewritePointers Q) (d, callGraph, shaderModule);
          (d, shaderModule) =
             RUN_PASS env ''insertBoundsChecks'' id
               (insertBoundsChecks Q) (d, shaderModule);
          (d, callGraph, shaderModule) =
             RUN_PASS env ''rewriteEntryPoints'' snd
               (rewriteEntryPoints Q) (d, callGraph, shaderModule);
          (maybeFailure, d, callGraph, shaderModule) =
             CHECK_PASS env ''rewriteGlobalVariables'' snd
               (rewriteGlobalVariables Q pipelineLayouts) (d, callGraph, shaderModule)
      in (case maybeFailure of
            Some failure \<Rightarrow>
              (Inl failure, PhaseTimer env ''prepare total'' d, shaderModule, compilationScope)
          | None \<Rightarrow>
              (let d = dumpASTAtEndIfNeeded env shaderModule d
               in (Inr \<lparr>callGraph = callGraph, entryPoints = entryPoints,
                          compilationScope = compilationScope\<rparr>,
                   PhaseTimer env ''prepare total'' d, shaderModule, MovedFrom)))))"

text \<open>
  \<^verbatim>\<open>prepareImpl\<close>: the scope is a local variable, constructed first and destroyed
  when the function returns; \<^verbatim>\<open>logPhaseTimes\<close> prints the phase times.
\<close>

definition prepareImpl ::
  "('m, 'l, 'cg, 'epi, 'e) prepare_passes \<Rightarrow> ('m, 'sc) scope_ops \<Rightarrow> 'd debug_env \<Rightarrow>
   'm \<times> nat \<Rightarrow> (string \<rightharpoonup> 'l option) \<Rightarrow>
   ('e + ('cg, 'epi, 'sc scope_var) PrepareResult) \<times> ('m, 'd) prepare_effects" where
  "prepareImpl Q S env = (\<lambda>(shaderModule, liveScopes) pipelineLayouts.
     (let (compilationScope, shaderModule, liveScopes) =
             CompilationScope_ctor S (shaderModule, liveScopes);
          phaseTimes0 = \<lparr>phaseTimes = [], dumped = []\<rparr>;
          (result, d, shaderModule, compilationScope) =
             prepareImpl_lambda Q env pipelineLayouts (phaseTimes0, shaderModule, compilationScope);
          (shaderModule, liveScopes) =
             CompilationScope_dtor S compilationScope (shaderModule, liveScopes)
      in (result, \<lparr>logged = d, moduleAfter = shaderModule, liveScopesAfter = liveScopes\<rparr>)))"

text \<open>The two overloads of \<^verbatim>\<open>prepare\<close>.\<close>

definition prepare ::
  "('m, 'l, 'cg, 'epi, 'e) prepare_passes \<Rightarrow> ('m, 'sc) scope_ops \<Rightarrow> 'd debug_env \<Rightarrow>
   'm \<times> nat \<Rightarrow> (string \<rightharpoonup> 'l option) \<Rightarrow>
   ('e + ('cg, 'epi, 'sc scope_var) PrepareResult) \<times> ('m, 'd) prepare_effects" where
  "prepare Q S env shaderModule pipelineLayouts = prepareImpl Q S env shaderModule pipelineLayouts"

text \<open>\<^verbatim>\<open>HashMap::add\<close> stores the value unless the key is already there.\<close>

definition HashMap_add :: "('k \<rightharpoonup> 'v) \<Rightarrow> 'k \<Rightarrow> 'v \<Rightarrow> ('k \<rightharpoonup> 'v)" where
  "HashMap_add m k v = (case m k of None \<Rightarrow> m(k \<mapsto> v) | Some _ \<Rightarrow> m)"

definition prepare_entryPoint ::
  "('m, 'l, 'cg, 'epi, 'e) prepare_passes \<Rightarrow> ('m, 'sc) scope_ops \<Rightarrow> 'd debug_env \<Rightarrow>
   'm \<times> nat \<Rightarrow> string \<Rightarrow> 'l option \<Rightarrow>
   ('e + ('cg, 'epi, 'sc scope_var) PrepareResult) \<times> ('m, 'd) prepare_effects" where
  "prepare_entryPoint Q S env shaderModule entryPointName pipelineLayout =
     (let pipelineLayouts = HashMap_add Map.empty entryPointName pipelineLayout
      in prepareImpl Q S env shaderModule pipelineLayouts)"

subsection \<open>evaluate\<close>

text \<open>
  An \<^verbatim>\<open>AST::Expression\<close> node: its kind (only \<^verbatim>\<open>IdentifierExpression\<close> matters to
  \<^verbatim>\<open>evaluate\<close>; every other subclass is \<open>OtherExpression\<close>) and the constant value
  cached on it, if any.
\<close>

datatype expression_kind = IdentifierExpression string | OtherExpression

record 'v Expression =
  kind :: expression_kind
  constantValue :: "'v option"

definition setConstantValue :: "'v \<Rightarrow> 'v Expression \<Rightarrow> 'v Expression" where
  "setConstantValue v expression = expression\<lparr>constantValue := Some v\<rparr>"

text \<open>
  \<^verbatim>\<open>HashMap::get\<close> returns the mapped value, and a default-constructed value when the
  key is absent; \<open>emptyValue\<close> is the default-constructed \<^verbatim>\<open>ConstantValue\<close>.
\<close>

definition HashMap_get :: "'v \<Rightarrow> ('k \<rightharpoonup> 'v) \<Rightarrow> 'k \<Rightarrow> 'v" where
  "HashMap_get emptyValue m k = (case m k of None \<Rightarrow> emptyValue | Some v \<Rightarrow> v)"

text \<open>
  A failed \<^verbatim>\<open>ASSERT\<close> stops the program; it is not a value of the return type.
  (The macro is defined outside this file; the model takes the assertion as checked.)
\<close>

datatype abort = AssertionFailure

text \<open>
  What a call of \<^verbatim>\<open>evaluate\<close> that returns has done: the value returned, the node
  as the call leaves it (the C++ writes through a \<^verbatim>\<open>const_cast\<close>), and the keys it
  looked up in the constants map.
\<close>

record 'v evaluated =
  returned :: 'v
  node :: "'v Expression"
  lookups :: "string list"

definition evaluate ::
  "'v \<Rightarrow> 'v Expression \<Rightarrow> (string \<rightharpoonup> 'v) \<Rightarrow> abort + 'v evaluated" where
  "evaluate emptyValue expression constants =
     (case constantValue expression of
        Some cached \<Rightarrow> Inr \<lparr>returned = cached, node = expression, lookups = []\<rparr>
      | None \<Rightarrow>
         (case kind expression of
            OtherExpression \<Rightarrow> Inl AssertionFailure
          | IdentifierExpression name \<Rightarrow>
              (let fetched = HashMap_get emptyValue constants name
               in Inr \<lparr>returned = fetched,
                       node = setConstantValue fetched expression,
                       lookups = [name]\<rparr>)))"

subsection \<open>Passes that gather warnings, as the specification words them\<close>





subsection \<open>A small instance of the passes\<close>

text \<open>
  Concrete passes on which the pipelines can be run: the module is the source text,
  an empty text does not parse, and the two constants that define each other are the
  one dependency cycle the reordering finds.
\<close>

definition example_check_passes :: "(unit, string, string) check_passes" where
  "example_check_passes =
     \<lparr>makeShaderModule = (\<lambda>wgsl configuration. wgsl),
      parse = (\<lambda>m. (if m = [] then Some \<lparr>errors = [''expected a declaration'']\<rparr> else None, m)),
      reorderGlobals = (\<lambda>m. (if m = ''const a = b; const b = a;''
                              then Some \<lparr>errors = [''encountered a dependency cycle'']\<rparr>
                              else None, m)),
      typeCheck = (\<lambda>m. (None, m)),
      validateAttributes = (\<lambda>m. (None, m))\<rparr>"

text \<open>
  The call graph is the list of its functions' names, a layout is the number of
  slots it offers, and a layout without slots cannot bind the resource that
  \<^verbatim>\<open>main\<close> uses.
\<close>

definition example_prepare_passes :: "(string, nat, string list, nat, string) prepare_passes" where
  "example_prepare_passes =
     \<lparr>buildCallGraph = (\<lambda>layouts (m, ep). ([''main''], m, ep(''main'' \<mapsto> 1))),
      mangleNames = (\<lambda>(cg, ep, m). (map (\<lambda>name. ''function0'') cg, ep, m @ '' /* mangled */'')),
      rewritePointers = (\<lambda>(cg, m). (cg, m)),
      insertBoundsChecks = (\<lambda>m. m),
      rewriteEntryPoints = (\<lambda>(cg, m). (cg, m)),
      rewriteGlobalVariables = (\<lambda>layouts (cg, m).
         (case layouts ''main'' of
            Some (Some 0) \<Rightarrow> (Some ''no slot for a used resource'', cg, m)
          | _ \<Rightarrow> (None, cg, m @ '' /* globals bound */'')))\<rparr>"

text \<open>A scope that remembers the module as it was and puts it back when it closes.\<close>

definition example_scope_ops :: "(string, string) scope_ops" where
  "example_scope_ops = \<lparr>openScope = (\<lambda>m. (m, m)), closeScope = (\<lambda>saved m. saved)\<rparr>"

definition example_env :: "nat debug_env" where
  "example_env = \<lparr>shouldDumpASTBetweenEachPass = False, shouldDumpASTAtEnd = False,
                   elapsed = (\<lambda>n. Suc n)\<rparr>"

section \<open>Properties\<close>

subsection \<open>What the macros do to the phase times\<close>

lemma phases_PhaseTimer: "phases (PhaseTimer env name d) = phases d @ [name]"
  by (simp add: phases_def PhaseTimer_def)

lemma phases_dumpASTBetweenEachPassIfNeeded:
  "phases (dumpASTBetweenEachPassIfNeeded env m message d) = phases d"
  by (simp add: phases_def dumpASTBetweenEachPassIfNeeded_def)

lemma phases_dumpASTAtEndIfNeeded: "phases (dumpASTAtEndIfNeeded env m d) = phases d"
  by (simp add: phases_def dumpASTAtEndIfNeeded_def)

lemma phases_initial: "phases \<lparr>phaseTimes = [], dumped = []\<rparr> = []"
  by (simp add: phases_def)

lemmas phases_simps = phases_PhaseTimer phases_dumpASTBetweenEachPassIfNeeded
  phases_dumpASTAtEndIfNeeded phases_initial

lemma CHECK_PASS_eq:
  "pass h = (r, h') \<Longrightarrow>
   CHECK_PASS env name modOf pass (d, h) =
     (r, PhaseTimer env name
           (dumpASTBetweenEachPassIfNeeded env (modOf h) (''AST before '' @ name) d), h')"
  by (simp add: CHECK_PASS_def)

lemma RUN_PASS_eq:
  "RUN_PASS env name modOf pass (d, h) =
     (PhaseTimer env name
        (dumpASTBetweenEachPassIfNeeded env (modOf h) (''AST before '' @ name) d), pass h)"
  by (simp add: RUN_PASS_def)

lemma RUN_PASS_WITH_RESULT_eq:
  "pass h = (r, h') \<Longrightarrow>
   RUN_PASS_WITH_RESULT env name modOf pass (d, h) =
     (r, PhaseTimer env name
           (dumpASTBetweenEachPassIfNeeded env (modOf h) (''AST before '' @ name) d), h')"
  by (simp add: RUN_PASS_WITH_RESULT_def)

subsection \<open>The pipelines in closed form\<close>


lemma prepare_result:
  assumes "openScope S shaderModule = (sc, m0)"
      and "buildCallGraph Q pipelineLayouts (m0, Map.empty) = (cg1, m1, ep1)"
      and "mangleNames Q (cg1, ep1, m1) = (cg2, ep2, m2)"
      and "rewritePointers Q (cg2, m2) = (cg3, m3)"
      and "insertBoundsChecks Q m3 = m4"
      and "rewriteEntryPoints Q (cg3, m4) = (cg5, m5)"
      and "rewriteGlobalVariables Q pipelineLayouts (cg5, m5) = (r, cg6, m6)"
  shows "fst (prepare Q S env (shaderModule, live) pipelineLayouts) =
           (case r of
              Some failure \<Rightarrow> Inl failure
            | None \<Rightarrow> Inr \<lparr>callGraph = cg6, entryPoints = ep2, compilationScope = Owns sc\<rparr>)"
    and "moduleAfter (snd (prepare Q S env (shaderModule, live) pipelineLayouts)) =
           (case r of Some failure \<Rightarrow> closeScope S sc m6 | None \<Rightarrow> m6)"
    and "liveScopesAfter (snd (prepare Q S env (shaderModule, live) pipelineLayouts)) =
           (case r of Some failure \<Rightarrow> live | None \<Rightarrow> Suc live)"
    and "phases (logged (snd (prepare Q S env (shaderModule, live) pipelineLayouts))) =
           [''buildCallGraph'', ''mangleNames'', ''rewritePointers'', ''insertBoundsChecks'',
            ''rewriteEntryPoints'', ''rewriteGlobalVariables'', ''prepare total'']"
  using assms
  by (simp_all add: prepare_def prepareImpl_def prepareImpl_lambda_def CompilationScope_ctor_def
        CompilationScope_dtor_def CHECK_PASS_eq RUN_PASS_eq RUN_PASS_WITH_RESULT_eq phases_simps
        split: option.splits)

text \<open>The debugging switches and the clock change what is logged, and nothing else.\<close>

lemma prepare_env_independent:
  "fst (prepare Q S env (shaderModule, live) pipelineLayouts) =
     fst (prepare Q S env' (shaderModule, live) pipelineLayouts)
   \<and> moduleAfter (snd (prepare Q S env (shaderModule, live) pipelineLayouts)) =
     moduleAfter (snd (prepare Q S env' (shaderModule, live) pipelineLayouts))
   \<and> liveScopesAfter (snd (prepare Q S env (shaderModule, live) pipelineLayouts)) =
     liveScopesAfter (snd (prepare Q S env' (shaderModule, live) pipelineLayouts))"
proof -
  obtain sc m0 where 1: "openScope S shaderModule = (sc, m0)"
    by (cases "openScope S shaderModule")
  obtain cg1 m1 ep1 where 2: "buildCallGraph Q pipelineLayouts (m0, Map.empty) = (cg1, m1, ep1)"
    by (cases "buildCallGraph Q pipelineLayouts (m0, Map.empty)") auto
  obtain cg2 ep2 m2 where 3: "mangleNames Q (cg1, ep1, m1) = (cg2, ep2, m2)"
    by (cases "mangleNames Q (cg1, ep1, m1)") auto
  obtain cg3 m3 where 4: "rewritePointers Q (cg2, m2) = (cg3, m3)"
    by (cases "rewritePointers Q (cg2, m2)")
  obtain cg5 m5 where 5: "rewriteEntryPoints Q (cg3, insertBoundsChecks Q m3) = (cg5, m5)"
    by (cases "rewriteEntryPoints Q (cg3, insertBoundsChecks Q m3)")
  obtain r cg6 m6 where 6: "rewriteGlobalVariables Q pipelineLayouts (cg5, m5) = (r, cg6, m6)"
    by (cases "rewriteGlobalVariables Q pipelineLayouts (cg5, m5)") auto
  show ?thesis
    by (simp add: prepare_result [OF 1 2 3 4 refl 5 6])
qed

subsection \<open>staticCheck\<close>

text \<open>
  C1. \<^verbatim>\<open>staticCheck\<close> runs \<^verbatim>\<open>parse\<close>, \<^verbatim>\<open>reorderGlobals\<close>, \<^verbatim>\<open>typeCheck\<close> and
  \<^verbatim>\<open>validateAttributes\<close> in this order, each on the module as the pass before left
  it, and stops at the first pass that reports a failure: the result is that pass's
  failure, the passes after it are not run (the phases timed are exactly the passes up
  to and including the failing one), and a failure carries no module. In particular,
  when parsing succeeds and \<^verbatim>\<open>reorderGlobals\<close> reports a cycle, the result is that
  failure and only \<^verbatim>\<open>parse\<close> and \<^verbatim>\<open>reorderGlobals\<close> have run. When all four succeed,
  all four have run and the result is a \<^verbatim>\<open>SuccessfulCheck\<close>.
\<close>

theorem staticCheck_fail_fast:
  fixes result :: "'e FailedCheck + ('w, 'm) SuccessfulCheck"
  assumes "parse P (makeShaderModule P wgsl configuration) = (r1, m1)"
      and "reorderGlobals P m1 = (r2, m2)"
      and "typeCheck P m2 = (r3, m3)"
      and "validateAttributes P m3 = (r4, m4)"
      and "staticCheck_run P env wgsl sourceMap configuration = (result, d)"
  shows "(result, phases d) =
         (case r1 of Some failure \<Rightarrow> (Inl failure, [''parse''])
          | None \<Rightarrow> (case r2 of Some failure \<Rightarrow> (Inl failure, [''parse'', ''reorderGlobals''])
          | None \<Rightarrow> (case r3 of Some failure \<Rightarrow>
                       (Inl failure, [''parse'', ''reorderGlobals'', ''typeCheck''])
          | None \<Rightarrow> (case r4 of Some failure \<Rightarrow>
                       (Inl failure,
                        [''parse'', ''reorderGlobals'', ''typeCheck'', ''validateAttributes''])
          | None \<Rightarrow> (Inr \<lparr>warnings = [], ast = m4\<rparr>,
                      [''parse'', ''reorderGlobals'', ''typeCheck'', ''validateAttributes''])))))
       \<and> staticCheck P env wgsl sourceMap configuration = result
       \<and> (r1 = None \<and> r2 = Some cycle \<longrightarrow>
            result = Inl cycle \<and> phases d = [''parse'', ''reorderGlobals''])"
  using assms
  by (auto simp: staticCheck_def staticCheck_run_def CHECK_PASS_eq phases_simps
           split: option.splits)

theorem staticCheck_fail_fast_witness:
  "staticCheck_run example_check_passes example_env ''const a = b; const b = a;''
       (None :: unit option) ()
     = (Inl \<lparr>errors = [''encountered a dependency cycle'']\<rparr>
          :: string FailedCheck + (string, string) SuccessfulCheck,
        \<lparr>phaseTimes = [(''parse'', 1), (''reorderGlobals'', 2)], dumped = []\<rparr>)
   \<and> phases \<lparr>phaseTimes = [(''parse'', 1 :: nat), (''reorderGlobals'', 2)],
              dumped = [] :: (string \<times> string) list\<rparr>
     = [''parse'', ''reorderGlobals'']"
proof -
  let ?src = "''const a = b; const b = a;''"
  let ?cycle = "\<lparr>errors = [''encountered a dependency cycle'']\<rparr>"
  let ?d = "\<lparr>phaseTimes = [(''parse'', 1 :: nat), (''reorderGlobals'', 2)],
             dumped = [] :: (string \<times> string) list\<rparr>"
  have 1: "parse example_check_passes (makeShaderModule example_check_passes ?src ()) = (None, ?src)"
    by (simp add: example_check_passes_def)
  have 2: "reorderGlobals example_check_passes ?src = (Some ?cycle, ?src)"
    by (simp add: example_check_passes_def)
  have 3: "typeCheck example_check_passes ?src = (None, ?src)"
    by (simp add: example_check_passes_def)
  have 4: "validateAttributes example_check_passes ?src = (None, ?src)"
    by (simp add: example_check_passes_def)
  have 5: "staticCheck_run example_check_passes example_env ?src (None :: unit option) ()
             = (Inl ?cycle :: string FailedCheck + (string, string) SuccessfulCheck, ?d)"
    by (simp add: staticCheck_run_def CHECK_PASS_def PhaseTimer_def
          dumpASTBetweenEachPassIfNeeded_def example_env_def example_check_passes_def Let_def)
  show ?thesis
    using staticCheck_fail_fast [OF 1 2 3 4 5, where cycle = ?cycle] 5 by simp
qed



text \<open>
  C9. The source map plays no part in \<^verbatim>\<open>staticCheck\<close>: with the same text and
  configuration, any two source maps (absent or present) give the same result, failure
  or success, and the same phase times.
\<close>

theorem staticCheck_ignores_sourceMap:
  "staticCheck P env wgsl sourceMap configuration = staticCheck P env wgsl sourceMap' configuration
   \<and> staticCheck_run P env wgsl sourceMap configuration
       = staticCheck_run P env wgsl sourceMap' configuration"
  by (simp add: staticCheck_def staticCheck_run_def)

subsection \<open>prepare\<close>

text \<open>
  C2. \<^verbatim>\<open>prepare\<close> runs \<^verbatim>\<open>buildCallGraph\<close>, \<^verbatim>\<open>mangleNames\<close>, \<^verbatim>\<open>rewritePointers\<close>,
  \<^verbatim>\<open>insertBoundsChecks\<close>, \<^verbatim>\<open>rewriteEntryPoints\<close> and \<^verbatim>\<open>rewriteGlobalVariables\<close> in this
  order, each on what the pass before left, whatever the module and the layouts are
  (the phases timed are these six, then the enclosing "prepare total"). Its result is
  an \<^verbatim>\<open>Error\<close> exactly when \<^verbatim>\<open>rewriteGlobalVariables\<close> returns one, and it is that
  error; otherwise it is the \<^verbatim>\<open>PrepareResult\<close> made of the call graph, the entry points
  and the compilation scope.
\<close>

theorem prepare_only_last_pass_fails:
  assumes "openScope S shaderModule = (sc, m0)"
      and "buildCallGraph Q pipelineLayouts (m0, Map.empty) = (cg1, m1, ep1)"
      and "mangleNames Q (cg1, ep1, m1) = (cg2, ep2, m2)"
      and "rewritePointers Q (cg2, m2) = (cg3, m3)"
      and "insertBoundsChecks Q m3 = m4"
      and "rewriteEntryPoints Q (cg3, m4) = (cg5, m5)"
      and "rewriteGlobalVariables Q pipelineLayouts (cg5, m5) = (r, cg6, m6)"
  shows "phases (logged (snd (prepare Q S env (shaderModule, live) pipelineLayouts))) =
           [''buildCallGraph'', ''mangleNames'', ''rewritePointers'', ''insertBoundsChecks'',
            ''rewriteEntryPoints'', ''rewriteGlobalVariables'', ''prepare total'']
       \<and> fst (prepare Q S env (shaderModule, live) pipelineLayouts) =
           (case r of
              Some failure \<Rightarrow> Inl failure
            | None \<Rightarrow> Inr \<lparr>callGraph = cg6, entryPoints = ep2, compilationScope = Owns sc\<rparr>)"
  using assms
  by (simp add: prepare_def prepareImpl_def prepareImpl_lambda_def CompilationScope_ctor_def
        CompilationScope_dtor_def CHECK_PASS_eq RUN_PASS_eq RUN_PASS_WITH_RESULT_eq phases_simps
        split: option.splits)

theorem prepare_only_last_pass_fails_witness:
  "phases (logged (snd (prepare example_prepare_passes example_scope_ops example_env
       (''fn main() { }'', 0) [''main'' \<mapsto> Some 2]))) =
     [''buildCallGraph'', ''mangleNames'', ''rewritePointers'', ''insertBoundsChecks'',
      ''rewriteEntryPoints'', ''rewriteGlobalVariables'', ''prepare total'']
   \<and> fst (prepare example_prepare_passes example_scope_ops example_env
       (''fn main() { }'', 0) [''main'' \<mapsto> Some 2]) =
     Inr \<lparr>callGraph = [''function0''], entryPoints = [''main'' \<mapsto> 1],
          compilationScope = Owns ''fn main() { }''\<rparr>"
proof -
  let ?m = "''fn main() { }''"
  let ?L = "[''main'' \<mapsto> Some (2 :: nat)]"
  have 1: "openScope example_scope_ops ?m = (?m, ?m)"
    by (simp add: example_scope_ops_def)
  have 2: "buildCallGraph example_prepare_passes ?L (?m, Map.empty)
             = ([''main''], ?m, [''main'' \<mapsto> 1])"
    by (simp add: example_prepare_passes_def)
  have 3: "mangleNames example_prepare_passes ([''main''], [''main'' \<mapsto> 1], ?m)
             = ([''function0''], [''main'' \<mapsto> 1], ?m @ '' /* mangled */'')"
    by (simp add: example_prepare_passes_def)
  have 4: "rewritePointers example_prepare_passes ([''function0''], ?m @ '' /* mangled */'')
             = ([''function0''], ?m @ '' /* mangled */'')"
    by (simp add: example_prepare_passes_def)
  have 5: "insertBoundsChecks example_prepare_passes (?m @ '' /* mangled */'')
             = ?m @ '' /* mangled */''"
    by (simp add: example_prepare_passes_def)
  have 6: "rewriteEntryPoints example_prepare_passes ([''function0''], ?m @ '' /* mangled */'')
             = ([''function0''], ?m @ '' /* mangled */'')"
    by (simp add: example_prepare_passes_def)
  have 7: "rewriteGlobalVariables example_prepare_passes ?L
             ([''function0''], ?m @ '' /* mangled */'')
             = (None, [''function0''], (?m @ '' /* mangled */'') @ '' /* globals bound */'')"
    by (simp add: example_prepare_passes_def)
  show ?thesis
    using prepare_only_last_pass_fails [OF 1 2 3 4 5 6 7, where env = example_env and live = 0]
    by simp
qed

text \<open>
  C5. The overload of \<^verbatim>\<open>prepare\<close> that takes one entry point's name and its optional
  layout does what the general overload does on the map with that one entry: the same
  result, the same rewritten module, the same phase times.
\<close>

theorem prepare_entryPoint_is_prepare:
  "prepare_entryPoint Q S env shaderModule entryPointName pipelineLayout =
   prepare Q S env shaderModule [entryPointName \<mapsto> pipelineLayout]"
  by (simp add: prepare_entryPoint_def prepare_def HashMap_add_def)

text \<open>
  C8. The compilation scope is constructed when \<^verbatim>\<open>prepare\<close> is entered. When
  \<^verbatim>\<open>rewriteGlobalVariables\<close> fails, \<^verbatim>\<open>prepare\<close> returns the error, the scope has been
  torn down on the module as the passes left it, and no more scopes are live than
  before the call. When it succeeds, the scope made at entry is handed over to the
  \<^verbatim>\<open>PrepareResult\<close>, which owns it; it has not been torn down and is the one scope
  more that is live, until the \<^verbatim>\<open>PrepareResult\<close> is destroyed, which tears it down.
\<close>

theorem prepare_scope_cleanup:
  assumes "openScope S shaderModule = (sc, m0)"
      and "buildCallGraph Q pipelineLayouts (m0, Map.empty) = (cg1, m1, ep1)"
      and "mangleNames Q (cg1, ep1, m1) = (cg2, ep2, m2)"
      and "rewritePointers Q (cg2, m2) = (cg3, m3)"
      and "insertBoundsChecks Q m3 = m4"
      and "rewriteEntryPoints Q (cg3, m4) = (cg5, m5)"
      and "rewriteGlobalVariables Q pipelineLayouts (cg5, m5) = (r, cg6, m6)"
  shows "(r = Some failure \<longrightarrow>
            fst (prepare Q S env (shaderModule, live) pipelineLayouts) = Inl failure
            \<and> liveScopesAfter (snd (prepare Q S env (shaderModule, live) pipelineLayouts)) = live
            \<and> moduleAfter (snd (prepare Q S env (shaderModule, live) pipelineLayouts))
                = closeScope S sc m6)
       \<and> (r = None \<longrightarrow>
            fst (prepare Q S env (shaderModule, live) pipelineLayouts)
                = Inr \<lparr>callGraph = cg6, entryPoints = ep2, compilationScope = Owns sc\<rparr>
            \<and> liveScopesAfter (snd (prepare Q S env (shaderModule, live) pipelineLayouts))
                = Suc live
            \<and> moduleAfter (snd (prepare Q S env (shaderModule, live) pipelineLayouts)) = m6
            \<and> PrepareResult_dtor S
                 \<lparr>callGraph = cg6, entryPoints = ep2, compilationScope = Owns sc\<rparr> (m6, Suc live)
                = (closeScope S sc m6, live))"
  by (simp add: prepare_result [OF assms] PrepareResult_dtor_def CompilationScope_dtor_def)

theorem prepare_scope_cleanup_witness:
  "fst (prepare example_prepare_passes example_scope_ops example_env
       (''fn main() { }'', 0) [''main'' \<mapsto> Some 0]) = Inl ''no slot for a used resource''
   \<and> liveScopesAfter (snd (prepare example_prepare_passes example_scope_ops example_env
       (''fn main() { }'', 0) [''main'' \<mapsto> Some 0])) = 0
   \<and> moduleAfter (snd (prepare example_prepare_passes example_scope_ops example_env
       (''fn main() { }'', 0) [''main'' \<mapsto> Some 0])) = ''fn main() { }''"
proof -
  let ?m = "''fn main() { }''"
  let ?L = "[''main'' \<mapsto> Some (0 :: nat)]"
  have 1: "openScope example_scope_ops ?m = (?m, ?m)"
    by (simp add: example_scope_ops_def)
  have 2: "buildCallGraph example_prepare_passes ?L (?m, Map.empty)
             = ([''main''], ?m, [''main'' \<mapsto> 1])"
    by (simp add: example_prepare_passes_def)
  have 3: "mangleNames example_prepare_passes ([''main''], [''main'' \<mapsto> 1], ?m)
             = ([''function0''], [''main'' \<mapsto> 1], ?m @ '' /* mangled */'')"
    by (simp add: example_prepare_passes_def)
  have 4: "rewritePointers example_prepare_passes ([''function0''], ?m @ '' /* mangled */'')
             = ([''function0''], ?m @ '' /* mangled */'')"
    by (simp add: example_prepare_passes_def)
  have 5: "insertBoundsChecks example_prepare_passes (?m @ '' /* mangled */'')
             = ?m @ '' /* mangled */''"
    by (simp add: example_prepare_passes_def)
  have 6: "rewriteEntryPoints example_prepare_passes ([''function0''], ?m @ '' /* mangled */'')
             = ([''function0''], ?m @ '' /* mangled */'')"
    by (simp add: example_prepare_passes_def)
  have 7: "rewriteGlobalVariables example_prepare_passes ?L
             ([''function0''], ?m @ '' /* mangled */'')
             = (Some ''no slot for a used resource'', [''function0''], ?m @ '' /* mangled */'')"
    by (simp add: example_prepare_passes_def)
  show ?thesis
    using prepare_scope_cleanup [OF 1 2 3 4 5 6 7, where env = example_env and live = 0
        and failure = "''no slot for a used resource''"]
    by (simp add: example_scope_ops_def)
qed

subsection \<open>evaluate\<close>

text \<open>
  C3. When the node carries a cached constant value, \<^verbatim>\<open>evaluate\<close> returns that value,
  leaves the node as it is and looks nothing up, whatever the constants map is. Hence,
  after a call that returned, a second call on the same node returns the same value
  and looks nothing up (with the same or any other constants map).
\<close>

theorem evaluate_memoizing:
  "(constantValue e = Some v \<longrightarrow>
      (\<forall>constants. evaluate emptyValue e constants = Inr \<lparr>returned = v, node = e, lookups = []\<rparr>))
   \<and> (evaluate emptyValue e constants = Inr r \<longrightarrow>
        evaluate emptyValue (node r) constants' =
          Inr \<lparr>returned = returned r, node = node r, lookups = []\<rparr>)"
  by (auto simp: evaluate_def setConstantValue_def Let_def
           split: option.splits expression_kind.splits)

theorem evaluate_memoizing_witness:
  "evaluate (0::int) \<lparr>kind = IdentifierExpression ''n'', constantValue = None\<rparr> [''n'' \<mapsto> 4]
     = Inr \<lparr>returned = 4, node = \<lparr>kind = IdentifierExpression ''n'', constantValue = Some 4\<rparr>,
            lookups = [''n'']\<rparr>
   \<and> evaluate (0::int) \<lparr>kind = IdentifierExpression ''n'', constantValue = Some 4\<rparr> Map.empty
     = Inr \<lparr>returned = 4, node = \<lparr>kind = IdentifierExpression ''n'', constantValue = Some 4\<rparr>,
            lookups = []\<rparr>"
proof -
  let ?e = "\<lparr>kind = IdentifierExpression ''n'', constantValue = None :: int option\<rparr>"
  let ?r = "\<lparr>returned = 4 :: int,
             node = \<lparr>kind = IdentifierExpression ''n'', constantValue = Some 4\<rparr>,
             lookups = [''n'']\<rparr>"
  have first: "evaluate 0 ?e [''n'' \<mapsto> 4] = Inr ?r"
    by (simp add: evaluate_def HashMap_get_def setConstantValue_def)
  show ?thesis
    using evaluate_memoizing [where e = ?e and emptyValue = 0 and constants = "[''n'' \<mapsto> 4]"
        and r = ?r and constants' = Map.empty and v = 4] first
    by simp
qed

text \<open>
  C6. \<^verbatim>\<open>evaluate\<close> asserts that a node without a cached value is an identifier: on an
  un-cached node of any other kind the assertion fails and the call aborts, which is
  not a value of its return type (there is no diagnostic to return). On an un-cached
  identifier the call returns; the assertion fails on un-cached non-identifiers only.
\<close>

theorem evaluate_assertion:
  "(constantValue e = None \<and> kind e = OtherExpression \<longrightarrow>
      evaluate emptyValue e constants = Inl AssertionFailure)
   \<and> (constantValue e = None \<and> kind e = IdentifierExpression name \<longrightarrow>
      (\<exists>r. evaluate emptyValue e constants = Inr r))
   \<and> ((\<exists>failure. evaluate emptyValue e constants = Inl failure)
        = (constantValue e = None \<and> kind e = OtherExpression))"
  by (auto simp: evaluate_def Let_def split: option.splits expression_kind.splits)

theorem evaluate_assertion_witness:
  "evaluate (0::int) \<lparr>kind = OtherExpression, constantValue = None\<rparr> [''n'' \<mapsto> 4]
     = Inl AssertionFailure
   \<and> (\<exists>r. evaluate (0::int) \<lparr>kind = IdentifierExpression ''n'', constantValue = None\<rparr>
             [''n'' \<mapsto> 4] = Inr r)"
  using evaluate_assertion [where e = "\<lparr>kind = OtherExpression, constantValue = None\<rparr>"
      and emptyValue = "0::int" and constants = "[''n'' \<mapsto> 4]"]
    evaluate_assertion [where e = "\<lparr>kind = IdentifierExpression ''n'', constantValue = None\<rparr>"
      and emptyValue = "0::int" and constants = "[''n'' \<mapsto> 4]" and name = "''n''"]
  by simp

text \<open>
  C10. On an un-cached identifier whose name is not a key of the constants map,
  \<^verbatim>\<open>evaluate\<close> does not fail: the lookup gives the default-constructed
  \<^verbatim>\<open>ConstantValue\<close>, which is cached on the node and returned.
\<close>

theorem evaluate_absent_identifier:
  assumes "constantValue e = None" and "kind e = IdentifierExpression name"
      and "constants name = None"
  shows "evaluate emptyValue e constants =
     Inr \<lparr>returned = emptyValue, node = e\<lparr>constantValue := Some emptyValue\<rparr>, lookups = [name]\<rparr>"
  using assms by (simp add: evaluate_def HashMap_get_def setConstantValue_def)

theorem evaluate_absent_identifier_witness:
  "evaluate (0::int) \<lparr>kind = IdentifierExpression ''n'', constantValue = None\<rparr> [''k'' \<mapsto> 4]
     = Inr \<lparr>returned = 0, node = \<lparr>kind = IdentifierExpression ''n'', constantValue = Some 0\<rparr>,
            lookups = [''n'']\<rparr>"
  using evaluate_absent_identifier [where e = "\<lparr>kind = IdentifierExpression ''n'',
      constantValue = None\<rparr>" and name = "''n''" and constants = "[''k'' \<mapsto> 4]"
      and emptyValue = "0::int"]
  by simp

end
